theory Spec2Isabelle
  imports Main "HOL-Library.Sublist"
begin

section \<open>Strings\<close>

text \<open>
  The scraper works on Python \<open>str\<close> values.  A string is modelled as a \<open>string\<close>
  (a list of \<open>char\<close>), each \<open>char\<close> standing for one code point below 256
  (Latin-1).  On that range the character classes used by the source are:
  \<^item> \<open>str.strip()\<close> and the regular expression class \<open>\s\<close> remove or match the code
    points for which \<open>str.isspace\<close> holds: 9 to 13, 28 to 32, 133 and 160;
  \<^item> the regular expression class \<open>\d\<close> matches the decimal digits 0 to 9;
  \<^item> \<open>str.lower()\<close> maps A to Z, and the upper-case letters 192 to 222 other than
    215, to the code point 32 above.
\<close>

definition isspace :: "char \<Rightarrow> bool" where
  "isspace c =
     (let n = (of_char c :: nat)
      in (9 \<le> n \<and> n \<le> 13) \<or> (28 \<le> n \<and> n \<le> 32) \<or> n = 133 \<or> n = 160)"

definition isdigit :: "char \<Rightarrow> bool" where
  "isdigit c = (let n = (of_char c :: nat) in 48 \<le> n \<and> n \<le> 57)"

definition lower_char :: "char \<Rightarrow> char" where
  "lower_char c =
     (let n = (of_char c :: nat)
      in if (65 \<le> n \<and> n \<le> 90) \<or> (192 \<le> n \<and> n \<le> 222 \<and> n \<noteq> 215)
         then char_of (n + 32) else c)"

text \<open>\<open>s.lower()\<close>\<close>

definition lower :: "string \<Rightarrow> string" where
  "lower s = map lower_char s"

text \<open>\<open>s.strip()\<close>: leading and trailing whitespace removed.\<close>

definition lstrip :: "string \<Rightarrow> string" where
  "lstrip s = dropWhile isspace s"

definition rstrip :: "string \<Rightarrow> string" where
  "rstrip s = rev (dropWhile isspace (rev s))"

definition strip :: "string \<Rightarrow> string" where
  "strip s = rstrip (lstrip s)"

text \<open>\<open>needle in hay\<close> on strings: \<open>needle\<close> occurs as a contiguous piece of \<open>hay\<close>.\<close>

fun contains :: "string \<Rightarrow> string \<Rightarrow> bool" where
  "contains needle [] = (needle = [])"
| "contains needle (c # cs) = (prefix needle (c # cs) \<or> contains needle cs)"

text \<open>\<open>sep.join(xs)\<close>\<close>

fun str_join :: "string \<Rightarrow> string list \<Rightarrow> string" where
  "str_join sep [] = []"
| "str_join sep [x] = x"
| "str_join sep (x # y # ys) = x @ sep @ str_join sep (y # ys)"

section \<open>File names\<close>

text \<open>
  \<^verbatim>\<open>
  def sanitize_filename(filename):
      return re.sub(r'[\\/*?:"<>|]', "", filename).strip()
  \<close>
  The character class holds the nine characters backslash, slash, star, question mark,
  colon, double quote, less-than, greater-than and bar.
\<close>

definition invalid_chars :: "char list" where
  "invalid_chars =
     [CHR 0x5C, CHR ''/'', CHR ''*'', CHR ''?'', CHR '':'', CHR 0x22, CHR ''<'', CHR ''>'',
      CHR ''|'']"

definition sanitize_filename :: "string \<Rightarrow> string" where
  "sanitize_filename filename = strip (filter (\<lambda>c. c \<notin> set invalid_chars) filename)"

section \<open>Documents\<close>

text \<open>
  The markup parser is an external collaborator: the model starts from the tree that
  \<open>BeautifulSoup(markup, "html.parser")\<close> builds.  A node is a piece of text
  (\<open>NavigableString\<close>) or an element (\<open>Tag\<close>) with its name, its attributes and its
  contents in document order.  Strings that text extraction never returns (comments,
  script and style bodies) are not part of the tree.
\<close>

datatype node = NavigableString string | Tag string "(string \<times> string) list" "node list"

text \<open>The root object: a tag named \<open>[document]\<close> holding the top-level nodes.\<close>

definition BeautifulSoup :: "node list \<Rightarrow> node" where
  "BeautifulSoup markup = Tag ''[document]'' [] markup"

text \<open>\<open>tag.descendants\<close>: every node below a tag, in document order.\<close>

fun descendants :: "node \<Rightarrow> node list" where
  "descendants (NavigableString s) = []"
| "descendants (Tag name attrs contents) = concat (map (\<lambda>c. c # descendants c) contents)"

fun strings :: "node \<Rightarrow> string list" where
  "strings (NavigableString s) = [s]"
| "strings (Tag name attrs contents) = concat (map strings contents)"

text \<open>\<open>tag.text\<close> and \<open>tag.get_text()\<close>: all strings below the tag, concatenated.\<close>

definition get_text :: "node \<Rightarrow> string" where
  "get_text n = concat (strings n)"

text \<open>
  \<open>tag.get_text(strip=True)\<close>: every string below the tag is stripped on its own, the
  empty ones are dropped, and the rest is concatenated without a separator.
\<close>

definition get_text_strip :: "node \<Rightarrow> string" where
  "get_text_strip n = concat (filter (\<lambda>s. s \<noteq> []) (map strip (strings n)))"

definition is_tag :: "string \<Rightarrow> node \<Rightarrow> bool" where
  "is_tag name n = (case n of NavigableString s \<Rightarrow> False | Tag nm attrs contents \<Rightarrow> nm = name)"

text \<open>\<open>tag.get(key)\<close>\<close>

definition get_attr :: "node \<Rightarrow> string \<Rightarrow> string option" where
  "get_attr n key = (case n of NavigableString s \<Rightarrow> None | Tag nm attrs contents \<Rightarrow> map_of attrs key)"

text \<open>The value of a \<open>class\<close> attribute is a whitespace-separated list of class names.\<close>

fun split_ws :: "string \<Rightarrow> string \<Rightarrow> string list" where
  "split_ws cur [] = (if cur = [] then [] else [cur])"
| "split_ws cur (c # cs) =
     (if isspace c then (if cur = [] then [] else [cur]) @ split_ws [] cs
      else split_ws (cur @ [c]) cs)"

definition has_class :: "string \<Rightarrow> node \<Rightarrow> bool" where
  "has_class cls n =
     (case get_attr n ''class'' of None \<Rightarrow> False | Some v \<Rightarrow> cls \<in> set (split_ws [] v))"

text \<open>\<open>tag.find_all(name)\<close>, and \<open>soup.select(name)\<close> for a bare element name.\<close>

definition find_all :: "string \<Rightarrow> node \<Rightarrow> node list" where
  "find_all name n = filter (is_tag name) (descendants n)"

text \<open>\<open>tag.find(name)\<close>: the first match, or \<open>None\<close>.\<close>

definition find_tag :: "string \<Rightarrow> node \<Rightarrow> node option" where
  "find_tag name n = (case find_all name n of [] \<Rightarrow> None | x # xs \<Rightarrow> Some x)"

text \<open>\<open>tag.find(name, class_=cls)\<close>\<close>

definition find_tag_class :: "string \<Rightarrow> string \<Rightarrow> node \<Rightarrow> node option" where
  "find_tag_class name cls n =
     (case filter (has_class cls) (find_all name n) of [] \<Rightarrow> None | x # xs \<Rightarrow> Some x)"

text \<open>
  \<open>soup.select("h2.entry-title a")\<close>: the \<open>a\<close> elements that have an \<open>h2\<close> ancestor of
  class \<open>entry-title\<close>, in document order.  The flag tells whether such an ancestor has
  been passed on the way down.
\<close>

fun select_entry_title_a :: "bool \<Rightarrow> node \<Rightarrow> node list" where
  "select_entry_title_a inside (NavigableString s) = []"
| "select_entry_title_a inside (Tag name attrs contents) =
     (if inside \<and> name = ''a'' then [Tag name attrs contents] else [])
     @ concat (map (select_entry_title_a
                     (inside \<or> (name = ''h2'' \<and> has_class ''entry-title'' (Tag name attrs contents))))
                contents)"

section \<open>Configuration\<close>

definition BASE_URL :: string where
  "BASE_URL = ''https://game-2u.com/Category/game/ps4''"

definition TOTAL_PAGES :: int where
  "TOTAL_PAGES = 122"

definition RESULTS_DIR :: string where
  "RESULTS_DIR = ''results''"

definition REQUEST_DELAY :: nat where
  "REQUEST_DELAY = 1"

definition MAX_RETRIES :: int where
  "MAX_RETRIES = 10"

definition RETRY_DELAY :: nat where
  "RETRY_DELAY = 5"

section \<open>The retrying fetch\<close>

text \<open>
  The transport is an external collaborator.  \<open>session.get(url, timeout=10)\<close> either
  raises a \<open>RequestException\<close> (connection error, timeout) or returns a response.
  A network is a function giving, for a URL and the index of the attempt within one
  call of \<open>make_request_with_retry\<close>, what the transport does at that attempt.
  The \<open>content\<close> of a response is kept as the top-level nodes its markup parses to.
\<close>

record response =
  status_code :: int
  content :: "node list"

datatype transport = Failed string | Responded response

type_synonym net = "string \<Rightarrow> int \<Rightarrow> transport"

datatype error = RequestException string | HTTPError int | KeyError string

text \<open>What a call does besides returning: sleeps, requests and log lines, in order.\<close>

datatype event = Sleep nat | Get string | LogWarning int | LogError

text \<open>\<open>response.raise_for_status()\<close> raises \<open>HTTPError\<close> for a status from 400 to 599.\<close>

definition raise_for_status :: "response \<Rightarrow> error + unit" where
  "raise_for_status r =
     (if 400 \<le> status_code r \<and> status_code r < 600 then Inl (HTTPError (status_code r))
      else Inr ())"

text \<open>The body of the \<open>try\<close>: one request and the status check.\<close>

definition request_once :: "net \<Rightarrow> string \<Rightarrow> int \<Rightarrow> error + response" where
  "request_once net url attempt =
     (case net url attempt of
        Failed msg \<Rightarrow> Inl (RequestException msg)
      | Responded r \<Rightarrow> (case raise_for_status r of Inl e \<Rightarrow> Inl e | Inr u \<Rightarrow> Inr r))"

text \<open>
  \<^verbatim>\<open>
  def make_request_with_retry(url, max_retries=MAX_RETRIES):
      for attempt in range(max_retries + 1):
          try:
              time.sleep(REQUEST_DELAY)
              response = session.get(url, timeout=10)
              response.raise_for_status()
              return response
          except (HTTPError, requests.exceptions.RequestException) as e:
              if attempt < max_retries:
                  logging.warning(...)
                  time.sleep(RETRY_DELAY)
              else:
                  logging.error(...)
                  raise
      return None
  \<close>
  The loop runs over the list \<open>range(max_retries + 1)\<close>, which is \<open>[0..max_retries]\<close>.
  The result is the raised error (\<open>Inl\<close>), or the returned value (\<open>Inr\<close>), which is a
  response or \<open>None\<close>; with it comes the list of events of the call.
\<close>

fun attempts_loop ::
  "net \<Rightarrow> string \<Rightarrow> int \<Rightarrow> int list \<Rightarrow> (error + response option) \<times> event list" where
  "attempts_loop net url max_retries [] = (Inr None, [])"
| "attempts_loop net url max_retries (attempt # rest) =
     (case request_once net url attempt of
        Inr r \<Rightarrow> (Inr (Some r), [Sleep REQUEST_DELAY, Get url])
      | Inl e \<Rightarrow>
          if attempt < max_retries
          then (case attempts_loop net url max_retries rest of
                  (res, evs) \<Rightarrow>
                    (res, [Sleep REQUEST_DELAY, Get url, LogWarning (attempt + 1),
                           Sleep RETRY_DELAY] @ evs))
          else (Inl e, [Sleep REQUEST_DELAY, Get url, LogError]))"

definition make_request_with_retry ::
  "net \<Rightarrow> string \<Rightarrow> int \<Rightarrow> (error + response option) \<times> event list" where
  "make_request_with_retry net url max_retries = attempts_loop net url max_retries [0..max_retries]"

text \<open>The number of request attempts of a call: its \<open>Get\<close> events.\<close>

definition is_get :: "event \<Rightarrow> bool" where
  "is_get ev = (case ev of Get u \<Rightarrow> True | _ \<Rightarrow> False)"

definition attempts_made :: "(error + response option) \<times> event list \<Rightarrow> nat" where
  "attempts_made res = length (filter is_get (snd res))"

text \<open>An attempt fails when the transport raises or the status is an error status.\<close>

definition attempt_fails :: "net \<Rightarrow> string \<Rightarrow> int \<Rightarrow> bool" where
  "attempt_fails net url attempt = (case request_once net url attempt of Inl e \<Rightarrow> True | Inr r \<Rightarrow> False)"

section \<open>Scanning a listing page\<close>

text \<open>\<open>str(n)\<close> for an integer: its decimal digits, after a minus sign when negative.\<close>

fun str_nat :: "nat \<Rightarrow> string" where
  "str_nat n = (if n < 10 then [char_of (48 + n)] else str_nat (n div 10) @ [char_of (48 + n mod 10)])"

definition str_int :: "int \<Rightarrow> string" where
  "str_int i = (if i < 0 then CHR ''-'' # str_nat (nat (- i)) else str_nat (nat i))"

text \<open>
  The loop over the selected links:
  \<^verbatim>\<open>
  for link in links:
      href = link.get("href")
      if href and "/20" in href and "ps4" in href.lower():
          game_links.append(href)
  \<close>
\<close>

fun game_links :: "node list \<Rightarrow> string list" where
  "game_links [] = []"
| "game_links (link # links) =
     (case get_attr link ''href'' of
        None \<Rightarrow> game_links links
      | Some href \<Rightarrow>
          if href \<noteq> [] \<and> contains ''/20'' href \<and> contains ''ps4'' (lower href)
          then href # game_links links else game_links links)"

definition page_url :: "int \<Rightarrow> string" where
  "page_url page_number =
     (if page_number > 1 then BASE_URL @ ''/page/'' @ str_int page_number else BASE_URL)"

text \<open>
  \<^verbatim>\<open>
  def process_page(page_number):
      try:
          url = f"{BASE_URL}/page/{page_number}" if page_number > 1 else BASE_URL
          response = make_request_with_retry(url)
          if not response:
              return []
          soup = BeautifulSoup(response.text, "html.parser")
          links = soup.select("h2.entry-title a")
          game_links = []
          for link in links: ...
          return game_links
      except Exception as e:
          logging.warning(...)
          return []
  \<close>
  A response that \<open>make_request_with_retry\<close> returns has passed \<open>raise_for_status\<close>, so
  it is truthy: \<open>not response\<close> holds for \<open>None\<close> only.
\<close>

definition process_page :: "net \<Rightarrow> int \<Rightarrow> string list" where
  "process_page net page_number =
     (case fst (make_request_with_retry net (page_url page_number) MAX_RETRIES) of
        Inl e \<Rightarrow> []
      | Inr None \<Rightarrow> []
      | Inr (Some r) \<Rightarrow>
          game_links (select_entry_title_a False (BeautifulSoup (content r))))"

section \<open>Extracting a detail page\<close>

text \<open>\<open>title.text.strip() if title else "Unknown"\<close> for the first \<open>h1\<close> of class \<open>entry-title\<close>.\<close>

definition game_name_of :: "node \<Rightarrow> string" where
  "game_name_of soup =
     (case find_tag_class ''h1'' ''entry-title'' soup of
        None \<Rightarrow> ''Unknown''
      | Some title \<Rightarrow> strip (get_text title))"

text \<open>\<open>s.replace(":", "")\<close>\<close>

definition remove_colons :: "string \<Rightarrow> string" where
  "remove_colons s = filter (\<lambda>c. c \<noteq> CHR '':'') s"

text \<open>
  \<^verbatim>\<open>
  table_data = {}
  info_tables = soup.select("table")
  if info_tables:
      for row in info_tables[0].find_all("tr"):
          cells = row.find_all("td")
          if len(cells) >= 2:
              key = cells[0].get_text(strip=True).replace(":", "")
              value = cells[1].get_text(strip=True)
              table_data[key] = value
  \<close>
\<close>

fun table_rows :: "node list \<Rightarrow> (string \<rightharpoonup> string) \<Rightarrow> (string \<rightharpoonup> string)" where
  "table_rows [] table_data = table_data"
| "table_rows (row # rows) table_data =
     (case find_all ''td'' row of
        c0 # c1 # cells \<Rightarrow>
          table_rows rows (table_data(remove_colons (get_text_strip c0) \<mapsto> get_text_strip c1))
      | _ \<Rightarrow> table_rows rows table_data)"

definition table_data_of :: "node list \<Rightarrow> (string \<rightharpoonup> string)" where
  "table_data_of info_tables =
     (case info_tables of
        [] \<Rightarrow> Map.empty
      | t # ts \<Rightarrow> table_rows (find_all ''tr'' t) Map.empty)"

text \<open>\<open>table_data.get(key, "Unknown")\<close>\<close>

definition get_or_unknown :: "(string \<rightharpoonup> string) \<Rightarrow> string \<Rightarrow> string" where
  "get_or_unknown table_data key = (case table_data key of None \<Rightarrow> ''Unknown'' | Some v \<Rightarrow> v)"

text \<open>
  \<open>re.findall(r"(\d{1,3}\.\d{1,2}\s?GB)", content_text)\<close>.
  One attempt of the matcher at the start of \<open>s\<close> takes \<open>i\<close> digits, a point, \<open>f\<close>
  digits, \<open>w\<close> whitespace characters and \<open>GB\<close>.  The quantifiers are greedy, so the
  backtracking matcher tries the larger counts first, the later quantifier varying
  fastest, and the first attempt that succeeds is the match.
\<close>

definition try_size :: "nat \<Rightarrow> nat \<Rightarrow> nat \<Rightarrow> string \<Rightarrow> string option" where
  "try_size i f w s =
     (let r1 = drop i s; r2 = drop 1 r1; r3 = drop f r2; r4 = drop w r3
      in if length (take i s) = i \<and> list_all isdigit (take i s)
            \<and> take 1 r1 = ''.''
            \<and> length (take f r2) = f \<and> list_all isdigit (take f r2)
            \<and> length (take w r3) = w \<and> list_all isspace (take w r3)
            \<and> take 2 r4 = ''GB''
         then Some (take (i + 1 + f + w + 2) s) else None)"

fun first_some :: "'a option list \<Rightarrow> 'a option" where
  "first_some [] = None"
| "first_some (None # xs) = first_some xs"
| "first_some (Some x # xs) = Some x"

definition size_match_at :: "string \<Rightarrow> string option" where
  "size_match_at s =
     first_some (concat (map (\<lambda>i. concat (map (\<lambda>f. map (\<lambda>w. try_size i f w s) [1, 0]) [2, 1]))
                            [3, 2, 1]))"

text \<open>
  \<open>findall\<close> scans from the left: where the pattern matches, the match is collected and
  the scan goes on behind it; elsewhere the scan moves on by one character.
\<close>

function findall_sizes :: "string \<Rightarrow> string list" where
  "findall_sizes s =
     (case size_match_at s of
        Some m \<Rightarrow> m # findall_sizes (drop (length m) s)
      | None \<Rightarrow> (case s of [] \<Rightarrow> [] | c # cs \<Rightarrow> findall_sizes cs))"
  by pat_completeness auto
termination
proof (relation "measure length")
  show "wf (measure length)" by simp
next
  fix s m :: string
  assume a: "size_match_at s = Some m"
  have fs: "first_some xs = Some m \<Longrightarrow> Some m \<in> set xs" for xs :: "string option list"
    by (induction xs rule: first_some.induct) auto
  from a have "Some m \<in> set (concat (map (\<lambda>i. concat (map (\<lambda>f. map (\<lambda>w. try_size i f w s) [1, 0]) [2, 1]))
                            [3, 2, 1]))"
    unfolding size_match_at_def by (rule fs)
  then have "\<exists>i f w. Some m = try_size i f w s"
    by (simp only: set_concat set_map set_simps image_insert image_empty
          Union_insert Union_empty Un_iff insert_iff empty_iff simp_thms) blast
  then obtain i f w where "try_size i f w s = Some m" by metis
  then have m: "m = take (i + 1 + f + w + 2) s"
    and "s \<noteq> []"
    by (auto simp: try_size_def Let_def split: if_splits)
  with m have "0 < length m" by simp
  moreover from m have "length m \<le> length s" by simp
  ultimately have "length s - length m < length s" by arith
  then show "(drop (length m) s, s) \<in> measure length" by simp
next
  fix s :: string and c cs
  assume "s = c # cs"
  then show "(cs, s) \<in> measure length" by simp
qed

declare findall_sizes.simps [simp del]

text \<open>
  The download links, one list per section, in the order the dictionary is created:
  \<open>"Base Game"\<close>, \<open>"Update"\<close>, \<open>"Fix"\<close>, \<open>"Torrent"\<close>.
\<close>

record section_links =
  base_game_links :: "string list"
  update_links :: "string list"
  fix_links :: "string list"
  torrent_links :: "string list"

definition no_links :: section_links where
  "no_links = \<lparr>base_game_links = [], update_links = [], fix_links = [], torrent_links = []\<rparr>"

text \<open>\<open>f"{a['href']} - {a.get_text(strip=True)}"\<close> for an anchor whose \<open>href\<close> is known.\<close>

definition format_link :: "string \<Rightarrow> node \<Rightarrow> string" where
  "format_link href a = href @ '' - '' @ get_text_strip a"

text \<open>
  \<open>[f"{a['href']} - {a.get_text(strip=True)}" for a in td.find_all("a", href=True)]\<close>:
  the anchors below \<open>td\<close> that carry an \<open>href\<close> attribute, formatted, in document order.
\<close>

definition href_links :: "node \<Rightarrow> string list" where
  "href_links td =
     List.map_filter
       (\<lambda>a. case get_attr a ''href'' of None \<Rightarrow> None | Some href \<Rightarrow> Some (format_link href a))
       (find_all ''a'' td)"

text \<open>
  The body of the loop over the rows:
  \<^verbatim>\<open>
  tds = tr.find_all("td")
  if len(tds) >= 4:
      label = tds[0].text.strip().lower()
      links = [... for a in tds[3].find_all("a", href=True)]
      if "base" in label:
          section_links["Base Game"].extend(links)
      elif "update" in label and "fix" not in label:
          section_links["Update"].extend(links)
      elif "fix" in label:
          section_links["Fix"].extend(links)
  elif len(tds) == 2 and "torrent" in tds[0].text.lower():
      a = tds[0].find("a")
      if a:
          section_links["Torrent"].append(f"{a['href']} - {a.get_text(strip=True)}")
  \<close>
  In the last branch \<open>a\<close> is the first anchor, with or without an \<open>href\<close>; \<open>a['href']\<close>
  raises \<open>KeyError\<close> when the attribute is missing.
\<close>

definition row_links :: "node \<Rightarrow> section_links \<Rightarrow> error + section_links" where
  "row_links tr sl =
     (let tds = find_all ''td'' tr
      in if length tds \<ge> 4 then
           (let label = lower (strip (get_text (tds ! 0)));
                links = href_links (tds ! 3)
            in if contains ''base'' label then
                 Inr (sl\<lparr>base_game_links := base_game_links sl @ links\<rparr>)
               else if contains ''update'' label \<and> \<not> contains ''fix'' label then
                 Inr (sl\<lparr>update_links := update_links sl @ links\<rparr>)
               else if contains ''fix'' label then
                 Inr (sl\<lparr>fix_links := fix_links sl @ links\<rparr>)
               else Inr sl)
         else if length tds = 2 \<and> contains ''torrent'' (lower (get_text (tds ! 0))) then
           (case find_tag ''a'' (tds ! 0) of
              None \<Rightarrow> Inr sl
            | Some a \<Rightarrow>
                (case get_attr a ''href'' of
                   None \<Rightarrow> Inl (KeyError ''href'')
                 | Some href \<Rightarrow> Inr (sl\<lparr>torrent_links := torrent_links sl @ [format_link href a]\<rparr>)))
         else Inr sl)"

text \<open>
  \<open>for table in info_tables: for tr in table.find_all("tr"): ...\<close>: the rows of every
  table in turn; an error raised in a row ends the loop.
\<close>

fun rows_loop :: "node list \<Rightarrow> section_links \<Rightarrow> error + section_links" where
  "rows_loop [] sl = Inr sl"
| "rows_loop (tr # trs) sl =
     (case row_links tr sl of Inl e \<Rightarrow> Inl e | Inr sl' \<Rightarrow> rows_loop trs sl')"

definition section_links_of :: "node list \<Rightarrow> error + section_links" where
  "section_links_of info_tables = rows_loop (concat (map (find_all ''tr'') info_tables)) no_links"

text \<open>The lines of the \<open>Detected Sizes\<close> section below its heading.\<close>

definition size_lines :: "string list \<Rightarrow> string list" where
  "size_lines size_matches =
     (if size_matches \<noteq> [] then map (\<lambda>size. ''- '' @ size) size_matches else [''- Unknown''])"

text \<open>The lines of one section of links: nothing when the section is empty.\<close>

definition section_lines :: "string \<Rightarrow> string list \<Rightarrow> string list" where
  "section_lines section links =
     (if links \<noteq> [] then (CHR 0x0A # ''['' @ section @ '']'') # map (\<lambda>link. ''- '' @ link) links
      else [])"

definition record_lines ::
  "string \<Rightarrow> string \<Rightarrow> string \<Rightarrow> string \<Rightarrow> string \<Rightarrow> string list \<Rightarrow> section_links \<Rightarrow> string list" where
  "record_lines url game_name version language firmware size_matches sl =
     [''URL: '' @ url,
      ''Game Name: '' @ game_name,
      ''Game Version: '' @ version,
      ''Language: '' @ language,
      ''Required firmware: '' @ firmware,
      CHR 0x0A # ''Detected Sizes:'']
     @ size_lines size_matches
     @ [CHR 0x0A # ''Download Links:'']
     @ section_lines ''Base Game'' (base_game_links sl)
     @ section_lines ''Update'' (update_links sl)
     @ section_lines ''Fix'' (fix_links sl)
     @ section_lines ''Torrent'' (torrent_links sl)"

text \<open>
  What \<open>parse_and_save_game\<close> computes from the parsed page, lines 65 to 139 of the
  source: the path of the output file and the text written to it, or the error raised
  on the way.
\<close>

definition extract_record :: "string \<Rightarrow> node \<Rightarrow> error + (string \<times> string)" where
  "extract_record url soup =
     (let game_name = game_name_of soup;
          info_tables = find_all ''table'' soup;
          table_data = table_data_of info_tables;
          version = get_or_unknown table_data ''Game Version'';
          language = get_or_unknown table_data ''Language'';
          firmware = get_or_unknown table_data ''Required firmware'';
          content_text = get_text soup;
          size_matches = findall_sizes content_text
      in case section_links_of info_tables of
           Inl e \<Rightarrow> Inl e
         | Inr sl \<Rightarrow>
             (let lines = record_lines url game_name version language firmware size_matches sl;
                  filename = sanitize_filename game_name @ ''.txt'';
                  filepath = RESULTS_DIR @ ''/'' @ filename
              in Inr (filepath, str_join [CHR 0x0A] lines)))"

text \<open>
  The file system is a map from paths to file contents; opening a file for writing and
  writing the text replaces the content at that path.  Errors of the operating system
  on opening or writing the file are outside the model.
  \<^verbatim>\<open>
  def parse_and_save_game(url):
      try:
          response = make_request_with_retry(url)
          if not response:
              return False
          soup = BeautifulSoup(response.content, "html.parser")
          ...
          with open(filepath, "w", encoding="utf-8") as f:
              f.write("\n".join(lines))
          return True
      except Exception as e:
          logging.error(f"Error parsing {url}: {e}")
          return False
  \<close>
  The body of the \<open>try\<close> returns a value and the new file system, or raises; the
  handler turns every error into \<open>False\<close> and leaves the file system as it was.
\<close>

type_synonym files = "string \<rightharpoonup> string"

definition parse_and_save_game_body :: "net \<Rightarrow> files \<Rightarrow> string \<Rightarrow> error + (bool \<times> files)" where
  "parse_and_save_game_body net fs url =
     (case fst (make_request_with_retry net url MAX_RETRIES) of
        Inl e \<Rightarrow> Inl e
      | Inr None \<Rightarrow> Inr (False, fs)
      | Inr (Some r) \<Rightarrow>
          (case extract_record url (BeautifulSoup (content r)) of
             Inl e \<Rightarrow> Inl e
           | Inr (filepath, text) \<Rightarrow> Inr (True, fs(filepath \<mapsto> text))))"

definition parse_and_save_game :: "net \<Rightarrow> files \<Rightarrow> string \<Rightarrow> bool \<times> files" where
  "parse_and_save_game net fs url =
     (case parse_and_save_game_body net fs url of
        Inl e \<Rightarrow> (False, fs)
      | Inr res \<Rightarrow> res)"

section \<open>The two phases of the run\<close>

text \<open>
  Phase 1 submits \<open>process_page\<close> for the pages 1 to \<open>TOTAL_PAGES\<close> and extends
  \<open>all_game_urls\<close> with each result in the order the tasks complete:
  \<^verbatim>\<open>
  all_game_urls = []
  for future in as_completed(future_to_page):
      game_urls = future.result()
      all_game_urls.extend(game_urls)
  \<close>
  \<open>completed\<close> is the list of pages in completion order.
\<close>

fun collect_game_urls :: "net \<Rightarrow> int list \<Rightarrow> string list \<Rightarrow> string list" where
  "collect_game_urls net [] all_game_urls = all_game_urls"
| "collect_game_urls net (page # completed) all_game_urls =
     collect_game_urls net completed (all_game_urls @ process_page net page)"

text \<open>
  Phase 2 submits one task per element of \<open>all_game_urls\<close>
  (\<open>{executor.submit(parse_and_save_game, url): url for url in all_game_urls}\<close>: the
  keys of the dictionary are the futures, one per element) and counts the tasks that
  return \<open>True\<close>.  The tasks are run here one after the other; the result holds the
  count, the file system and the URLs \<open>parse_and_save_game\<close> was called with.
\<close>

fun run_details :: "net \<Rightarrow> files \<Rightarrow> string list \<Rightarrow> nat \<times> files \<times> string list" where
  "run_details net fs [] = (0, fs, [])"
| "run_details net fs (url # urls) =
     (case parse_and_save_game net fs url of
        (success, fs') \<Rightarrow>
          (case run_details net fs' urls of
             (total_games, fs'', called) \<Rightarrow>
               ((if success then 1 else 0) + total_games, fs'', url # called)))"

definition main :: "net \<Rightarrow> files \<Rightarrow> int list \<Rightarrow> nat \<times> files \<times> string list" where
  "main net fs completed = run_details net fs (collect_game_urls net completed [])"

text \<open>The URLs phase 2 is given, and those the detail extraction is run on.\<close>

definition all_game_urls :: "net \<Rightarrow> int list \<Rightarrow> string list" where
  "all_game_urls net completed = collect_game_urls net completed []"

definition processed_urls :: "net \<Rightarrow> files \<Rightarrow> int list \<Rightarrow> string list" where
  "processed_urls net fs completed = snd (snd (main net fs completed))"

section \<open>Notions used to state the properties\<close>

text \<open>
  The attribute entries of the rows of a table, in row order: one pair for every row
  with at least two \<open>td\<close> cells below it, the key being the text of the first cell as
  \<open>get_text(strip=True)\<close> gives it with every colon removed, the value the text of the
  second cell as \<open>get_text(strip=True)\<close> gives it.
\<close>

definition attribute_entries :: "node list \<Rightarrow> (string \<times> string) list" where
  "attribute_entries rows =
     map (\<lambda>row. (remove_colons (get_text_strip (find_all ''td'' row ! 0)),
                 get_text_strip (find_all ''td'' row ! 1)))
       (filter (\<lambda>row. length (find_all ''td'' row) \<ge> 2) rows)"

text \<open>
  The attribute mapping as claim C4 words it: the key is the trimmed text of the first
  cell with a trailing colon stripped, the value the trimmed text of the second cell,
  the last occurrence of a key winning.
\<close>

definition strip_trailing_colon :: "string \<Rightarrow> string" where
  "strip_trailing_colon s = (if s \<noteq> [] \<and> last s = CHR '':'' then butlast s else s)"

definition claimed_entries :: "node list \<Rightarrow> (string \<times> string) list" where
  "claimed_entries rows =
     map (\<lambda>row. (strip_trailing_colon (strip (get_text (find_all ''td'' row ! 0))),
                 strip (get_text (find_all ''td'' row ! 1))))
       (filter (\<lambda>row. length (find_all ''td'' row) \<ge> 2) rows)"

definition claimed_table_data :: "node list \<Rightarrow> (string \<rightharpoonup> string)" where
  "claimed_table_data info_tables =
     (case info_tables of
        [] \<Rightarrow> Map.empty
      | t # ts \<Rightarrow> map_of (rev (claimed_entries (find_all ''tr'' t))))"




section \<open>Example inputs\<close>

text \<open>A listing page with two title links, one of them to an item.\<close>

definition example_listing :: "node list" where
  "example_listing =
     [Tag ''div'' []
        [Tag ''h2'' [(''class'', ''entry-title'')]
           [Tag ''a'' [(''href'', ''https://game-2u.com/2024/01/Game-PS4'')]
              [NavigableString ''Game'']],
         Tag ''h2'' [(''class'', ''entry-title'')]
           [Tag ''a'' [(''href'', ''https://game-2u.com/about'')] [NavigableString ''About'']]]]"

text \<open>A network on which every request is answered with that listing page.\<close>

definition listing_net :: net where
  "listing_net = (\<lambda>url attempt. Responded \<lparr>status_code = 200, content = example_listing\<rparr>)"

text \<open>
  A detail page: a title, a sentence with two sizes, an attribute table in which
  \<open>Language\<close> occurs twice, and a table of links with a base-game row and a torrent row.
\<close>

definition example_detail :: "node list" where
  "example_detail =
     [Tag ''html'' []
        [Tag ''body'' []
           [Tag ''h1'' [(''class'', ''entry-title'')] [NavigableString '' Game: One '']],
            Tag ''p'' [] [NavigableString ''This game is 12.34 GB, patch adds 0.56 GB''],
            Tag ''table'' []
              [Tag ''tr'' []
                 [Tag ''td'' [] [NavigableString ''Game Version:''],
                  Tag ''td'' [] [NavigableString '' 1.00 '']],
               Tag ''tr'' []
                 [Tag ''td'' [] [NavigableString ''Language:''],
                  Tag ''td'' [] [NavigableString ''English'']],
               Tag ''tr'' []
                 [Tag ''td'' [] [NavigableString ''Language:''],
                  Tag ''td'' [] [NavigableString ''French'']]],
            Tag ''table'' []
              [Tag ''tr'' []
                 [Tag ''td'' [] [NavigableString ''Base Game''],
                  Tag ''td'' [] [],
                  Tag ''td'' [] [],
                  Tag ''td'' []
                    [Tag ''a'' [(''href'', ''https://host/part1'')] [NavigableString ''Part 1''],
                     Tag ''a'' [(''href'', ''https://host/part2'')] [NavigableString ''Part 2'']]],
               Tag ''tr'' []
                 [Tag ''td'' []
                    [NavigableString ''Torrent '',
                     Tag ''a'' [(''href'', ''https://host/t'')] [NavigableString ''file'']],
                  Tag ''td'' [] []]]]]"

definition detail_net :: net where
  "detail_net = (\<lambda>url attempt. Responded \<lparr>status_code = 200, content = example_detail\<rparr>)"




text \<open>An attribute table whose first key has a colon inside.\<close>

definition colon_table :: "node list" where
  "colon_table =
     [Tag ''table'' []
        [Tag ''tr'' []
           [Tag ''td'' [] [NavigableString ''Game: Version:''],
            Tag ''td'' [] [NavigableString '' 1.00 '']]]]"

text \<open>An attribute table whose first key is split by markup.\<close>

definition markup_table :: "node list" where
  "markup_table =
     [Tag ''table'' []
        [Tag ''tr'' []
           [Tag ''td'' [] [Tag ''b'' [] [NavigableString ''Game''], NavigableString '' Version:''],
            Tag ''td'' [] [NavigableString ''1.00'']]]]"

text \<open>A torrent row whose first anchor is a named anchor without \<open>href\<close>.\<close>

definition torrent_anchor_without_href :: "node list" where
  "torrent_anchor_without_href =
     [Tag ''table'' []
        [Tag ''tr'' []
           [Tag ''td'' []
              [NavigableString ''Torrent '', Tag ''a'' [(''name'', ''top'')] [NavigableString ''file'']],
            Tag ''td'' [] []]]]"

definition torrent_without_href_net :: net where
  "torrent_without_href_net =
     (\<lambda>url attempt. Responded \<lparr>status_code = 200, content = torrent_anchor_without_href\<rparr>)"

text \<open>An attribute table with a header row and two rows for the key \<open>Language\<close>.\<close>

definition language_table :: node where
  "language_table =
     Tag ''table'' []
       [Tag ''tr'' [] [Tag ''th'' [] [NavigableString ''Info'']],
        Tag ''tr'' []
          [Tag ''td'' [] [NavigableString ''Language:''], Tag ''td'' [] [NavigableString ''English'']],
        Tag ''tr'' []
          [Tag ''td'' [] [NavigableString ''Language:''], Tag ''td'' [] [NavigableString ''French'']]]"

text \<open>
  A network that serves the same detail page after a timeout at the first attempt, with
  another success status.
\<close>

definition flaky_detail_net :: net where
  "flaky_detail_net =
     (\<lambda>url attempt. if attempt = 0 then Failed ''timeout''
                     else Responded \<lparr>status_code = 203, content = example_detail\<rparr>)"

section \<open>Properties of the string functions\<close>

lemma set_lstrip: "set (lstrip s) \<subseteq> set s"
  unfolding lstrip_def by (rule set_dropWhileD [THEN subsetI])

lemma set_rstrip: "set (rstrip s) \<subseteq> set s"
proof -
  have "set (dropWhile isspace (rev s)) \<subseteq> set (rev s)"
    by (rule set_dropWhileD [THEN subsetI])
  then show ?thesis by (simp add: rstrip_def)
qed

lemma set_strip: "set (strip s) \<subseteq> set s"
  unfolding strip_def using set_rstrip [of "lstrip s"] set_lstrip [of s] by blast

lemma lstrip_hd: "lstrip s \<noteq> [] \<Longrightarrow> \<not> isspace (hd (lstrip s))"
  unfolding lstrip_def by (rule hd_dropWhile)

lemma rstrip_last: "rstrip s \<noteq> [] \<Longrightarrow> \<not> isspace (last (rstrip s))"
proof -
  assume ne: "rstrip s \<noteq> []"
  then have "dropWhile isspace (rev s) \<noteq> []" by (simp add: rstrip_def)
  then have "\<not> isspace (hd (dropWhile isspace (rev s)))" by (rule hd_dropWhile)
  with ne show ?thesis by (simp add: rstrip_def last_rev)
qed

lemma rstrip_keeps_hd:
  assumes "s \<noteq> []" and "\<not> isspace (hd s)"
  shows "rstrip s \<noteq> [] \<and> hd (rstrip s) = hd s"
proof -
  from assms obtain c cs where s: "s = c # cs" and c: "\<not> isspace c"
    by (cases s) auto
  have "dropWhile isspace (rev cs @ [c]) = dropWhile isspace (rev cs) @ [c]"
    using c by (simp add: dropWhile_append3)
  then have "rstrip s = c # rev (dropWhile isspace (rev cs))"
    by (simp add: rstrip_def s)
  then show ?thesis by (simp add: s)
qed

lemma strip_hd: "strip s \<noteq> [] \<Longrightarrow> \<not> isspace (hd (strip s))"
proof -
  assume ne: "strip s \<noteq> []"
  then have l: "lstrip s \<noteq> []" by (auto simp: strip_def rstrip_def)
  from rstrip_keeps_hd [OF l lstrip_hd [OF l]] show ?thesis
    using lstrip_hd [OF l] by (simp add: strip_def)
qed

lemma strip_last: "strip s \<noteq> [] \<Longrightarrow> \<not> isspace (last (strip s))"
  unfolding strip_def by (rule rstrip_last)

lemma lstrip_id: "s = [] \<or> \<not> isspace (hd s) \<Longrightarrow> lstrip s = s"
  by (cases s) (auto simp: lstrip_def)

lemma rstrip_id: "s = [] \<or> \<not> isspace (last s) \<Longrightarrow> rstrip s = s"
proof (cases s rule: rev_cases)
  case Nil
  then show ?thesis by (simp add: rstrip_def)
next
  case (snoc ys y)
  assume "s = [] \<or> \<not> isspace (last s)"
  with snoc show ?thesis by (simp add: rstrip_def)
qed

lemma strip_strip: "strip (strip s) = strip s"
proof (cases "strip s = []")
  case True
  have "strip [] = []" by (simp add: strip_def lstrip_def rstrip_def)
  with True show ?thesis by simp
next
  case False
  have "lstrip (strip s) = strip s"
    using strip_hd [OF False] by (intro lstrip_id) simp
  moreover have "rstrip (strip s) = strip s"
    using strip_last [OF False] by (intro rstrip_id) simp
  ultimately show ?thesis by (simp add: strip_def [of "strip s"])
qed

lemma filter_strip_valid:
  "filter (\<lambda>c. c \<notin> set invalid_chars) (sanitize_filename s) = sanitize_filename s"
proof -
  have "set (sanitize_filename s) \<subseteq> set (filter (\<lambda>c. c \<notin> set invalid_chars) s)"
    unfolding sanitize_filename_def by (rule set_strip)
  then have "\<forall>c \<in> set (sanitize_filename s). c \<notin> set invalid_chars" by auto
  then show ?thesis by (simp add: filter_id_conv)
qed

section \<open>Properties of the retrying fetch\<close>

lemma attempts_loop_all_fail:
  "xs \<noteq> [] \<Longrightarrow> \<forall>a \<in> set xs. attempt_fails net url a \<Longrightarrow>
   \<forall>a \<in> set (butlast xs). a < mr \<Longrightarrow> \<not> last xs < mr \<Longrightarrow>
   attempts_made (attempts_loop net url mr xs) = length xs
   \<and> fst (attempts_loop net url mr xs) = (case request_once net url (last xs) of Inl e \<Rightarrow> Inl e | Inr r \<Rightarrow> Inr None)"
proof (induction xs)
  case Nil
  then show ?case by simp
next
  case (Cons a xs)
  from Cons.prems(2) have "attempt_fails net url a" by simp
  then obtain e where e: "request_once net url a = Inl e"
    by (cases "request_once net url a") (simp_all add: attempt_fails_def)
  show ?case
  proof (cases "xs = []")
    case True
    with Cons.prems e show ?thesis
      by (simp add: attempts_made_def is_get_def)
  next
    case False
    with Cons.prems have lt: "a < mr" by simp
    from False Cons.prems have
      ih: "attempts_made (attempts_loop net url mr xs) = length xs
           \<and> fst (attempts_loop net url mr xs) = (case request_once net url (last xs) of Inl e \<Rightarrow> Inl e | Inr r \<Rightarrow> Inr None)"
      by (intro Cons.IH) auto
    obtain res evs where l: "attempts_loop net url mr xs = (res, evs)"
      by (cases "attempts_loop net url mr xs")
    with ih e lt False show ?thesis
      by (simp add: attempts_made_def is_get_def)
  qed
qed

lemma make_request_with_retry_negative:
  "max_retries < 0 \<Longrightarrow> make_request_with_retry net url max_retries = (Inr None, [])"
  by (simp add: make_request_with_retry_def)

section \<open>Properties of the listing scan and of the aggregation\<close>

lemma contains_iff: "contains needle hay \<longleftrightarrow> (\<exists>pre post. hay = pre @ needle @ post)"
proof (induction hay)
  case Nil
  then show ?case by auto
next
  case (Cons c cs)
  show ?case
  proof
    assume "contains needle (c # cs)"
    then consider "prefix needle (c # cs)" | "contains needle cs" by auto
    then show "\<exists>pre post. c # cs = pre @ needle @ post"
    proof cases
      case 1
      then obtain post where "c # cs = needle @ post" by (auto simp: prefix_def)
      then have "c # cs = [] @ needle @ post" by simp
      then show ?thesis by blast
    next
      case 2
      with Cons.IH obtain pre post where "cs = pre @ needle @ post" by blast
      then have "c # cs = (c # pre) @ needle @ post" by simp
      then show ?thesis by blast
    qed
  next
    assume "\<exists>pre post. c # cs = pre @ needle @ post"
    then obtain pre post where e: "c # cs = pre @ needle @ post" by blast
    show "contains needle (c # cs)"
    proof (cases pre)
      case Nil
      with e have "prefix needle (c # cs)" by (simp add: prefix_def)
      then show ?thesis by simp
    next
      case (Cons p ps)
      with e have "cs = ps @ needle @ post" by simp
      with Cons.IH have "contains needle cs" by blast
      then show ?thesis by simp
    qed
  qed
qed

lemma game_links_filter:
  "game_links links =
     filter (\<lambda>href. href \<noteq> [] \<and> contains ''/20'' href \<and> contains ''ps4'' (lower href))
       (List.map_filter (\<lambda>link. get_attr link ''href'') links)"
  by (induction links) (auto simp: List.map_filter_simps split: option.splits)

lemma process_page_cases:
  "process_page net page_number =
     (case fst (make_request_with_retry net (page_url page_number) MAX_RETRIES) of
        Inr (Some r) \<Rightarrow>
          filter (\<lambda>href. href \<noteq> [] \<and> contains ''/20'' href \<and> contains ''ps4'' (lower href))
            (List.map_filter (\<lambda>link. get_attr link ''href'')
               (select_entry_title_a False (BeautifulSoup (content r))))
      | _ \<Rightarrow> [])"
  by (simp add: process_page_def game_links_filter split: sum.splits option.splits)

lemma process_page_member:
  "href \<in> set (process_page net page_number) \<Longrightarrow>
     contains ''/20'' href \<and> contains ''ps4'' (lower href)"
  by (auto simp: process_page_cases split: sum.splits option.splits)

lemma subseq_concat_map:
  "(\<And>c. c \<in> set cs \<Longrightarrow> subseq (f c) (g c)) \<Longrightarrow> subseq (concat (map f cs)) (concat (map g cs))"
  by (induction cs) (auto intro: list_emb_append_mono)

lemma select_entry_title_a_subseq:
  "subseq (select_entry_title_a inside n) (n # descendants n)"
proof (induction n arbitrary: inside)
  case (NavigableString s)
  then show ?case by simp
next
  case (Tag name attrs contents)
  have "subseq (concat (map (select_entry_title_a b) contents))
          (concat (map (\<lambda>c. c # descendants c) contents))" for b
    by (rule subseq_concat_map) (rule Tag.IH)
  then show ?case by (auto intro: list_emb_append_mono)
qed

lemma select_entry_title_a_document_order:
  "subseq (select_entry_title_a False (BeautifulSoup markup)) (descendants (BeautifulSoup markup))"
proof -
  have "subseq (concat (map (select_entry_title_a False) markup))
          (concat (map (\<lambda>c. c # descendants c) markup))"
    by (rule subseq_concat_map) (rule select_entry_title_a_subseq)
  then show ?thesis by (simp add: BeautifulSoup_def)
qed

lemma collect_game_urls_concat:
  "collect_game_urls net completed acc = acc @ concat (map (process_page net) completed)"
  by (induction completed arbitrary: acc) simp_all

lemma run_details_called: "snd (snd (run_details net fs urls)) = urls"
proof (induction urls arbitrary: fs)
  case Nil
  show ?case by simp
next
  case (Cons url urls)
  obtain success fs' where p: "parse_and_save_game net fs url = (success, fs')"
    by (cases "parse_and_save_game net fs url")
  obtain total_games fs'' called where r: "run_details net fs' urls = (total_games, fs'', called)"
    by (cases "run_details net fs' urls")
  from Cons.IH [of fs'] r have "called = urls" by simp
  with p r show ?case by simp
qed

lemma count_list_concat: "count_list (concat xss) x = sum_list (map (\<lambda>xs. count_list xs x) xss)"
  by (induction xss) simp_all

lemma listing_net_first_attempt:
  "fst (make_request_with_retry listing_net url MAX_RETRIES)
     = Inr (Some \<lparr>status_code = 200, content = example_listing\<rparr>)"
proof -
  have "[0..MAX_RETRIES] = 0 # [1..MAX_RETRIES]"
    by (simp add: MAX_RETRIES_def upto_rec1)
  then show ?thesis
    by (simp add: make_request_with_retry_def listing_net_def request_once_def
          raise_for_status_def)
qed

lemma example_listing_links:
  "game_links (select_entry_title_a False (BeautifulSoup example_listing))
     = [''https://game-2u.com/2024/01/Game-PS4'']"
  by code_simp

lemma process_page_listing_net:
  "process_page listing_net page = [''https://game-2u.com/2024/01/Game-PS4'']"
  by (simp add: process_page_def listing_net_first_attempt example_listing_links)

section \<open>Properties of the attribute table\<close>

lemma table_rows_map_of:
  "table_rows rows m = m ++ map_of (rev (attribute_entries rows))"
proof (induction rows arbitrary: m)
  case Nil
  show ?case by (simp add: attribute_entries_def)
next
  case (Cons row rows)
  show ?case
  proof (cases "length (find_all ''td'' row) \<ge> 2")
    case True
    then obtain c0 c1 cells where c: "find_all ''td'' row = c0 # c1 # cells"
      by (cases "find_all ''td'' row"; cases "tl (find_all ''td'' row)") auto
    have e: "attribute_entries (row # rows) =
        (remove_colons (get_text_strip c0), get_text_strip c1) # attribute_entries rows"
      by (simp add: attribute_entries_def c)
    have "m(remove_colons (get_text_strip c0) \<mapsto> get_text_strip c1)
            ++ map_of (rev (attribute_entries rows))
        = m ++ map_of (rev ((remove_colons (get_text_strip c0), get_text_strip c1)
                              # attribute_entries rows))"
      by (rule ext) (simp add: map_add_def split: option.splits)
    with e show ?thesis
      by (simp only: table_rows.simps c list.case Cons.IH)
  next
    case False
    then have a: "attribute_entries (row # rows) = attribute_entries rows"
      by (simp add: attribute_entries_def)
    from False have "table_rows (row # rows) m = table_rows rows m"
      by (cases "find_all ''td'' row"; cases "tl (find_all ''td'' row)") auto
    with a show ?thesis by (simp add: Cons.IH)
  qed
qed

lemma table_data_of_map_of:
  "table_data_of info_tables =
     (case info_tables of
        [] \<Rightarrow> Map.empty
      | t # ts \<Rightarrow> map_of (rev (attribute_entries (find_all ''tr'' t))))"
  by (simp add: table_data_of_def table_rows_map_of split: list.splits)

lemma map_of_rev_last:
  "k \<notin> fst ` set es2 \<Longrightarrow> map_of (rev (es1 @ (k, v) # es2)) k = Some v"
proof -
  assume "k \<notin> fst ` set es2"
  then have "map_of (rev es2) k = None" by (simp add: map_of_eq_None_iff)
  then show ?thesis by (simp add: map_add_def)
qed

lemma extract_record_text:
  assumes "extract_record url soup = Inr (path, text)"
  obtains sl where "section_links_of (find_all ''table'' soup) = Inr sl"
    and "path = RESULTS_DIR @ ''/'' @ sanitize_filename (game_name_of soup) @ ''.txt''"
    and "text = str_join [CHR 0x0A]
           (record_lines url (game_name_of soup)
              (get_or_unknown (table_data_of (find_all ''table'' soup)) ''Game Version'')
              (get_or_unknown (table_data_of (find_all ''table'' soup)) ''Language'')
              (get_or_unknown (table_data_of (find_all ''table'' soup)) ''Required firmware'')
              (findall_sizes (get_text soup)) sl)"
  using assms by (auto simp: extract_record_def Let_def split: sum.splits)

lemma language_table_found:
  "find_all ''table'' (BeautifulSoup [language_table]) = [language_table]"
  unfolding language_table_def by code_simp

lemma language_table_entries:
  "attribute_entries (find_all ''tr'' language_table)
     = [(''Language'', ''English'')] @ (''Language'', ''French'') # []"
  unfolding language_table_def by code_simp

lemma language_table_record:
  "extract_record ''u'' (BeautifulSoup [language_table]) =
     Inr (''results/Unknown.txt'',
          str_join [CHR 0x0A]
            ([''URL: '' @ ''u'', ''Game Name: '' @ ''Unknown'', ''Game Version: '' @ ''Unknown'',
              ''Language: '' @ ''French'', ''Required firmware: '' @ ''Unknown'']
             @ [CHR 0x0A # ''Detected Sizes:'', ''- Unknown'', CHR 0x0A # ''Download Links:'']))"
  by code_simp

section \<open>Properties of the detail extraction\<close>







lemma parse_and_save_game_fetched:
  assumes "fst (make_request_with_retry net url MAX_RETRIES) = Inr (Some r)"
  shows "parse_and_save_game net fs url =
     (case extract_record url (BeautifulSoup (content r)) of
        Inl e \<Rightarrow> (False, fs)
      | Inr (path, rtext) \<Rightarrow> (True, fs(path \<mapsto> rtext)))"
  using assms
  by (simp add: parse_and_save_game_def parse_and_save_game_body_def split: sum.splits prod.splits)






lemma detail_net_fetch:
  "fst (make_request_with_retry detail_net ''u'' MAX_RETRIES)
     = Inr (Some \<lparr>status_code = 200, content = example_detail\<rparr>)"
  by code_simp

lemma flaky_detail_net_fetch:
  "fst (make_request_with_retry flaky_detail_net ''u'' MAX_RETRIES)
     = Inr (Some \<lparr>status_code = 203, content = example_detail\<rparr>)"
  by code_simp

lemma flaky_detail_net_attempts:
  "attempts_made (make_request_with_retry flaky_detail_net ''u'' MAX_RETRIES) = 2"
  by code_simp

lemma example_detail_written: "fst (parse_and_save_game detail_net Map.empty ''u'')"
  by code_simp

lemma torrent_row_raises:
  "row_links
     (Tag ''tr'' []
        [Tag ''td'' []
           [NavigableString ''Torrent '', Tag ''a'' [(''name'', ''top'')] [NavigableString ''file'']],
         Tag ''td'' [] []])
     no_links = Inl (KeyError ''href'')"
  by code_simp

lemma torrent_extract_raises:
  "extract_record ''u'' (BeautifulSoup torrent_anchor_without_href) = Inl (KeyError ''href'')"
  by code_simp

lemma torrent_without_href_net_fetch:
  "fst (make_request_with_retry torrent_without_href_net ''u'' MAX_RETRIES)
     = Inr (Some \<lparr>status_code = 200, content = torrent_anchor_without_href\<rparr>)"
  by code_simp

text \<open>The classification of a row with at least four cells.\<close>

lemma row_links_four_cells:
  assumes "length (find_all ''td'' tr) \<ge> 4"
  shows "row_links tr sl =
     Inr (let label = lower (strip (get_text (find_all ''td'' tr ! 0)));
              links = href_links (find_all ''td'' tr ! 3)
          in if contains ''base'' label then sl\<lparr>base_game_links := base_game_links sl @ links\<rparr>
             else if contains ''update'' label \<and> \<not> contains ''fix'' label
               then sl\<lparr>update_links := update_links sl @ links\<rparr>
             else if contains ''fix'' label then sl\<lparr>fix_links := fix_links sl @ links\<rparr>
             else sl)"
  using assms by (simp add: row_links_def Let_def)

lemma href_links_formatted:
  "href_links td =
     map (\<lambda>a. the (get_attr a ''href'') @ '' - '' @ get_text_strip a)
       (filter (\<lambda>a. get_attr a ''href'' \<noteq> None) (find_all ''a'' td))"
proof -
  have "List.map_filter
       (\<lambda>a. case get_attr a ''href'' of None \<Rightarrow> None | Some href \<Rightarrow> Some (format_link href a)) xs
     = map (\<lambda>a. the (get_attr a ''href'') @ '' - '' @ get_text_strip a)
         (filter (\<lambda>a. get_attr a ''href'' \<noteq> None) xs)" for xs
    by (induction xs) (auto simp: List.map_filter_simps format_link_def split: option.splits)
  then show ?thesis by (simp add: href_links_def)
qed

lemma row_links_torrent:
  assumes "length (find_all ''td'' tr) = 2"
    and "contains ''torrent'' (lower (get_text (find_all ''td'' tr ! 0)))"
  shows "row_links tr sl =
     (case find_tag ''a'' (find_all ''td'' tr ! 0) of
        None \<Rightarrow> Inr sl
      | Some a \<Rightarrow>
          (case get_attr a ''href'' of
             None \<Rightarrow> Inl (KeyError ''href'')
           | Some href \<Rightarrow>
               Inr (sl\<lparr>torrent_links := torrent_links sl @ [href @ '' - '' @ get_text_strip a]\<rparr>)))"
  using assms by (simp add: row_links_def Let_def format_link_def split: option.splits)

lemma base_game_row_two_anchors:
  "row_links
     (Tag ''tr'' []
        [Tag ''td'' [] [NavigableString ''Base Game''],
         Tag ''td'' [] [],
         Tag ''td'' [] [],
         Tag ''td'' []
           [Tag ''a'' [(''href'', ''https://host/part1'')] [NavigableString ''Part 1''],
            Tag ''a'' [(''href'', ''https://host/part2'')] [NavigableString ''Part 2'']]])
     no_links
   = Inr (no_links\<lparr>base_game_links :=
            [''https://host/part1 - Part 1'', ''https://host/part2 - Part 2'']\<rparr>)"
  by code_simp

section \<open>Properties of the size matcher\<close>












































section \<open>The sizes in the record\<close>





section \<open>Verified claims\<close>

text \<open>
  C1 as stated: when the scans of two listing pages return a common detail URL, the
  URLs given to phase 2 contain it exactly once.  This fails: on a site whose every
  listing page links the same item, pages 1 and 2 both return its URL, and the list
  given to phase 2 after the 122 pages holds it 122 times.
\<close>

theorem all_game_urls_not_deduplicated:
  "''https://game-2u.com/2024/01/Game-PS4'' \<in> set (process_page listing_net 1)
   \<and> ''https://game-2u.com/2024/01/Game-PS4'' \<in> set (process_page listing_net 2)
   \<and> count_list (all_game_urls listing_net [1..TOTAL_PAGES])
        ''https://game-2u.com/2024/01/Game-PS4'' = 122"
proof -
  have "count_list (concat (map (process_page listing_net) pages))
          ''https://game-2u.com/2024/01/Game-PS4'' = length pages" for pages
    by (induction pages) (simp_all add: process_page_listing_net)
  then show ?thesis
    by (simp add: all_game_urls_def collect_game_urls_concat process_page_listing_net
          TOTAL_PAGES_def)
qed

text \<open>
  C1 as amended: the URLs given to phase 2 are the results of the scans, concatenated
  in the order the scans complete, without deduplication.  The detail extraction is
  run once per element of that list, so a URL is processed as many times as the scans
  returned it in total.
\<close>

theorem all_game_urls_concatenation:
  "all_game_urls net completed = concat (map (process_page net) completed)
   \<and> processed_urls net fs completed = all_game_urls net completed
   \<and> count_list (processed_urls net fs completed) url
       = sum_list (map (\<lambda>page. count_list (process_page net page) url) completed)"
proof -
  have a: "all_game_urls net completed = concat (map (process_page net) completed)"
    by (simp add: all_game_urls_def collect_game_urls_concat)
  have p: "processed_urls net fs completed = all_game_urls net completed"
    by (simp add: processed_urls_def main_def all_game_urls_def run_details_called)
  have "count_list (concat (map (process_page net) completed)) url
      = sum_list (map (\<lambda>page. count_list (process_page net page) url) completed)"
    by (simp add: count_list_concat comp_def)
  with a p show ?thesis by simp
qed

text \<open>
  C2.  For every URL and every value of \<open>max_retries\<close>: when every attempt fails (the
  transport raises, or the status is an error status), the call makes as many requests
  as \<open>range(max_retries + 1)\<close> has elements, which is exactly \<open>max_retries + 1\<close>
  for a number of retries \<open>0 \<le> max_retries\<close>, and it then raises the error of the last
  attempt; when the first attempt succeeds, the call makes exactly one request and
  returns the response of that attempt.
\<close>

theorem make_request_with_retry_attempts:
  "((\<forall>attempt \<in> {0..max_retries}. attempt_fails net url attempt) \<longrightarrow>
      attempts_made (make_request_with_retry net url max_retries) = nat (max_retries + 1)
      \<and> (0 \<le> max_retries \<longrightarrow>
           int (attempts_made (make_request_with_retry net url max_retries)) = max_retries + 1
           \<and> (\<exists>e. request_once net url max_retries = Inl e
                  \<and> fst (make_request_with_retry net url max_retries) = Inl e)))
   \<and> (\<forall>r. 0 \<le> max_retries \<and> request_once net url 0 = Inr r \<longrightarrow>
         attempts_made (make_request_with_retry net url max_retries) = 1
         \<and> fst (make_request_with_retry net url max_retries) = Inr (Some r))"
proof (intro conjI impI allI)
  assume fails: "\<forall>attempt \<in> {0..max_retries}. attempt_fails net url attempt"
  show "attempts_made (make_request_with_retry net url max_retries) = nat (max_retries + 1)"
  proof (cases "0 \<le> max_retries")
    case True
    then have split: "[0..max_retries] = [0..max_retries - 1] @ [max_retries]"
      by (rule upto_rec2)
    have "attempts_made (attempts_loop net url max_retries [0..max_retries])
            = length [0..max_retries]
       \<and> fst (attempts_loop net url max_retries [0..max_retries])
           = (case request_once net url (last [0..max_retries]) of
                Inl e \<Rightarrow> Inl e | Inr r \<Rightarrow> Inr None)"
    proof (rule attempts_loop_all_fail)
      show "[0..max_retries] \<noteq> []" using split by simp
      show "\<forall>a \<in> set [0..max_retries]. attempt_fails net url a" using fails by simp
      show "\<forall>a \<in> set (butlast [0..max_retries]). a < max_retries"
        by (subst split) (simp add: butlast_append)
      show "\<not> last [0..max_retries] < max_retries" by (subst split) simp
    qed
    then show ?thesis by (simp add: make_request_with_retry_def)
  next
    case False
    then show ?thesis
      by (simp add: make_request_with_retry_negative attempts_made_def)
  qed
next
  assume fails: "\<forall>attempt \<in> {0..max_retries}. attempt_fails net url attempt"
    and nn: "0 \<le> max_retries"
  from nn have split: "[0..max_retries] = [0..max_retries - 1] @ [max_retries]"
    by (rule upto_rec2)
  have l: "attempts_made (attempts_loop net url max_retries [0..max_retries])
          = length [0..max_retries]
     \<and> fst (attempts_loop net url max_retries [0..max_retries])
         = (case request_once net url (last [0..max_retries]) of
              Inl e \<Rightarrow> Inl e | Inr r \<Rightarrow> Inr None)"
  proof (rule attempts_loop_all_fail)
    show "[0..max_retries] \<noteq> []" using split by simp
    show "\<forall>a \<in> set [0..max_retries]. attempt_fails net url a" using fails by simp
    show "\<forall>a \<in> set (butlast [0..max_retries]). a < max_retries"
      by (subst split) (simp add: butlast_append)
    show "\<not> last [0..max_retries] < max_retries" by (subst split) simp
  qed
  with nn show "int (attempts_made (make_request_with_retry net url max_retries)) = max_retries + 1"
    by (simp add: make_request_with_retry_def)
  have "last [0..max_retries] = max_retries" by (subst split) simp
  with l have f: "fst (make_request_with_retry net url max_retries)
      = (case request_once net url max_retries of Inl e \<Rightarrow> Inl e | Inr r \<Rightarrow> Inr None)"
    by (simp add: make_request_with_retry_def)
  from fails nn have "attempt_fails net url max_retries" by simp
  then obtain e where "request_once net url max_retries = Inl e"
    by (cases "request_once net url max_retries") (simp_all add: attempt_fails_def)
  with f show "\<exists>e. request_once net url max_retries = Inl e
      \<and> fst (make_request_with_retry net url max_retries) = Inl e"
    by simp
next
  fix r assume ok: "0 \<le> max_retries \<and> request_once net url 0 = Inr r"
  then have "[0..max_retries] = 0 # [1..max_retries]" by (simp add: upto_rec1)
  with ok show "attempts_made (make_request_with_retry net url max_retries) = 1"
    by (simp add: make_request_with_retry_def attempts_made_def is_get_def)
next
  fix r assume ok: "0 \<le> max_retries \<and> request_once net url 0 = Inr r"
  then have "[0..max_retries] = 0 # [1..max_retries]" by (simp add: upto_rec1)
  with ok show "fst (make_request_with_retry net url max_retries) = Inr (Some r)"
    by (simp add: make_request_with_retry_def)
qed

theorem make_request_with_retry_attempts_witness:
  "int (attempts_made (make_request_with_retry (\<lambda>u a. Failed ''timeout'') ''u'' 2)) = 2 + 1
   \<and> fst (make_request_with_retry (\<lambda>u a. Failed ''timeout'') ''u'' 2)
       = Inl (RequestException ''timeout'')
   \<and> attempts_made
        (make_request_with_retry (\<lambda>u a. Responded \<lparr>status_code = 200, content = []\<rparr>) ''u'' 2) = 1
   \<and> fst (make_request_with_retry (\<lambda>u a. Responded \<lparr>status_code = 200, content = []\<rparr>) ''u'' 2)
       = Inr (Some \<lparr>status_code = 200, content = []\<rparr>)"
  using make_request_with_retry_attempts [of 2 "\<lambda>u a. Failed ''timeout''" "''u''"]
    make_request_with_retry_attempts
      [of 2 "\<lambda>u a. Responded \<lparr>status_code = 200, content = []\<rparr>" "''u''"]
  by (simp add: attempt_fails_def request_once_def raise_for_status_def)




text \<open>
  C4 as stated: the key of an attribute is the trimmed text of the first cell with a
  trailing colon stripped.  This fails: for the row \<open>Game: Version:\<close> / \<open>1.00\<close> the
  source stores the value under \<open>Game Version\<close>, since it removes every colon, and the
  record shows version \<open>1.00\<close>; with the key as claimed, \<open>Game: Version\<close>, the lookup
  of \<open>Game Version\<close> would give \<open>Unknown\<close>.  It also fails for a first cell whose text
  is split by markup, \<open><b>Game</b> Version:\<close>: the source strips each piece and
  stores the value under \<open>GameVersion\<close>, so the record shows version \<open>Unknown\<close>, where
  the key as claimed is \<open>Game Version\<close>.
\<close>

theorem attribute_key_not_trailing_colon:
  "get_or_unknown (table_data_of (find_all ''table'' (BeautifulSoup colon_table))) ''Game Version''
     = ''1.00''
   \<and> get_or_unknown (claimed_table_data (find_all ''table'' (BeautifulSoup colon_table)))
       ''Game Version'' = ''Unknown''
   \<and> table_data_of (find_all ''table'' (BeautifulSoup colon_table))
       \<noteq> claimed_table_data (find_all ''table'' (BeautifulSoup colon_table))
   \<and> get_or_unknown (table_data_of (find_all ''table'' (BeautifulSoup markup_table)))
       ''Game Version'' = ''Unknown''
   \<and> get_or_unknown (claimed_table_data (find_all ''table'' (BeautifulSoup markup_table)))
       ''Game Version'' = ''1.00''"
proof -
  have a: "get_or_unknown (table_data_of (find_all ''table'' (BeautifulSoup colon_table)))
             ''Game Version'' = ''1.00''"
    by code_simp
  have b: "get_or_unknown (claimed_table_data (find_all ''table'' (BeautifulSoup colon_table)))
             ''Game Version'' = ''Unknown''"
    by code_simp
  from a b have c: "table_data_of (find_all ''table'' (BeautifulSoup colon_table))
       \<noteq> claimed_table_data (find_all ''table'' (BeautifulSoup colon_table))"
    by auto
  have d: "get_or_unknown (table_data_of (find_all ''table'' (BeautifulSoup markup_table)))
             ''Game Version'' = ''Unknown''"
    by code_simp
  have e: "get_or_unknown (claimed_table_data (find_all ''table'' (BeautifulSoup markup_table)))
             ''Game Version'' = ''1.00''"
    by code_simp
  from a b c d e show ?thesis by (intro conjI)
qed

text \<open>
  C4 as amended.  For every document, the attribute mapping is built from the rows of
  the first table that have at least two \<open>td\<close> cells: the key is the text of the first
  cell, each of its strings stripped and the pieces concatenated, with every colon
  removed; the value is the text of the second cell, stripped the same way; the last
  occurrence of a key wins.  A key that no such row has is looked up as \<open>Unknown\<close>, and
  the record shows the lookups of \<open>Game Version\<close>, \<open>Language\<close> and
  \<open>Required firmware\<close> in its third to fifth line.
\<close>

theorem table_data_attribute_mapping:
  "table_data_of (find_all ''table'' soup) =
     (case find_all ''table'' soup of
        [] \<Rightarrow> Map.empty
      | t # ts \<Rightarrow> map_of (rev (attribute_entries (find_all ''tr'' t))))
   \<and> (\<forall>t ts es1 k v es2.
         find_all ''table'' soup = t # ts
         \<and> attribute_entries (find_all ''tr'' t) = es1 @ (k, v) # es2 \<and> k \<notin> fst ` set es2 \<longrightarrow>
         get_or_unknown (table_data_of (find_all ''table'' soup)) k = v)
   \<and> (\<forall>k. (\<forall>t ts. find_all ''table'' soup = t # ts \<longrightarrow>
               k \<notin> fst ` set (attribute_entries (find_all ''tr'' t))) \<longrightarrow>
         get_or_unknown (table_data_of (find_all ''table'' soup)) k = ''Unknown'')
   \<and> (\<forall>url path text. extract_record url soup = Inr (path, text) \<longrightarrow>
         (\<exists>name rest.
            text = str_join [CHR 0x0A]
              ([''URL: '' @ url,
                ''Game Name: '' @ name,
                ''Game Version: ''
                  @ get_or_unknown (table_data_of (find_all ''table'' soup)) ''Game Version'',
                ''Language: ''
                  @ get_or_unknown (table_data_of (find_all ''table'' soup)) ''Language'',
                ''Required firmware: ''
                  @ get_or_unknown (table_data_of (find_all ''table'' soup)) ''Required firmware'']
               @ rest)))"
proof (intro conjI allI impI)
  show "table_data_of (find_all ''table'' soup) =
     (case find_all ''table'' soup of
        [] \<Rightarrow> Map.empty
      | t # ts \<Rightarrow> map_of (rev (attribute_entries (find_all ''tr'' t))))"
    by (rule table_data_of_map_of)
next
  fix t ts es1 k v es2
  assume "find_all ''table'' soup = t # ts
     \<and> attribute_entries (find_all ''tr'' t) = es1 @ (k, v) # es2 \<and> k \<notin> fst ` set es2"
  then show "get_or_unknown (table_data_of (find_all ''table'' soup)) k = v"
    by (simp add: table_data_of_map_of get_or_unknown_def map_of_rev_last del: rev_append rev.simps)
next
  fix k
  assume a: "\<forall>t ts. find_all ''table'' soup = t # ts \<longrightarrow>
               k \<notin> fst ` set (attribute_entries (find_all ''tr'' t))"
  show "get_or_unknown (table_data_of (find_all ''table'' soup)) k = ''Unknown''"
  proof (cases "find_all ''table'' soup")
    case Nil
    then show ?thesis by (simp add: table_data_of_map_of get_or_unknown_def)
  next
    case (Cons t ts)
    with a have "k \<notin> fst ` set (attribute_entries (find_all ''tr'' t))" by blast
    then have "map_of (rev (attribute_entries (find_all ''tr'' t))) k = None"
      by (simp add: map_of_eq_None_iff)
    with Cons show ?thesis by (simp add: table_data_of_map_of get_or_unknown_def)
  qed
next
  fix url path rtext
  assume "extract_record url soup = Inr (path, rtext)"
  then obtain sl where "rtext = str_join [CHR 0x0A]
           (record_lines url (game_name_of soup)
              (get_or_unknown (table_data_of (find_all ''table'' soup)) ''Game Version'')
              (get_or_unknown (table_data_of (find_all ''table'' soup)) ''Language'')
              (get_or_unknown (table_data_of (find_all ''table'' soup)) ''Required firmware'')
              (findall_sizes (get_text soup)) sl)"
    by (rule extract_record_text)
  then show "\<exists>name rest.
            rtext = str_join [CHR 0x0A]
              ([''URL: '' @ url,
                ''Game Name: '' @ name,
                ''Game Version: ''
                  @ get_or_unknown (table_data_of (find_all ''table'' soup)) ''Game Version'',
                ''Language: ''
                  @ get_or_unknown (table_data_of (find_all ''table'' soup)) ''Language'',
                ''Required firmware: ''
                  @ get_or_unknown (table_data_of (find_all ''table'' soup)) ''Required firmware'']
               @ rest)"
    unfolding record_lines_def by (intro exI) (simp only: append.simps)
qed

theorem table_data_attribute_mapping_witness:
  "get_or_unknown (table_data_of (find_all ''table'' (BeautifulSoup [language_table]))) ''Language''
     = ''French''
   \<and> get_or_unknown (table_data_of (find_all ''table'' (BeautifulSoup [language_table])))
       ''Required firmware'' = ''Unknown''
   \<and> (\<exists>path text name rest.
         extract_record ''u'' (BeautifulSoup [language_table]) = Inr (path, text)
         \<and> text = str_join [CHR 0x0A]
             ([''URL: '' @ ''u'', ''Game Name: '' @ name,
               ''Game Version: ''
                 @ get_or_unknown (table_data_of (find_all ''table'' (BeautifulSoup [language_table])))
                     ''Game Version'',
               ''Language: ''
                 @ get_or_unknown (table_data_of (find_all ''table'' (BeautifulSoup [language_table])))
                     ''Language'',
               ''Required firmware: ''
                 @ get_or_unknown (table_data_of (find_all ''table'' (BeautifulSoup [language_table])))
                     ''Required firmware'']
              @ rest))"
proof -
  note t = table_data_attribute_mapping [of "BeautifulSoup [language_table]"]
  have k: "''Language'' \<notin> fst ` set ([] :: (string \<times> string) list)" by simp
  from t language_table_found language_table_entries k
  have a: "get_or_unknown (table_data_of (find_all ''table'' (BeautifulSoup [language_table])))
             ''Language'' = ''French''"
    by blast
  have "\<forall>t ts. find_all ''table'' (BeautifulSoup [language_table]) = t # ts \<longrightarrow>
          ''Required firmware'' \<notin> fst ` set (attribute_entries (find_all ''tr'' t))"
    by (simp add: language_table_found language_table_entries)
  with t have b: "get_or_unknown (table_data_of (find_all ''table'' (BeautifulSoup [language_table])))
             ''Required firmware'' = ''Unknown''"
    by blast
  from t language_table_record have c: "\<exists>name rest.
         str_join [CHR 0x0A]
            ([''URL: '' @ ''u'', ''Game Name: '' @ ''Unknown'', ''Game Version: '' @ ''Unknown'',
              ''Language: '' @ ''French'', ''Required firmware: '' @ ''Unknown'']
             @ [CHR 0x0A # ''Detected Sizes:'', ''- Unknown'', CHR 0x0A # ''Download Links:''])
         = str_join [CHR 0x0A]
             ([''URL: '' @ ''u'', ''Game Name: '' @ name,
               ''Game Version: ''
                 @ get_or_unknown (table_data_of (find_all ''table'' (BeautifulSoup [language_table])))
                     ''Game Version'',
               ''Language: ''
                 @ get_or_unknown (table_data_of (find_all ''table'' (BeautifulSoup [language_table])))
                     ''Language'',
               ''Required firmware: ''
                 @ get_or_unknown (table_data_of (find_all ''table'' (BeautifulSoup [language_table])))
                     ''Required firmware'']
              @ rest)"
    by blast
  from a b c language_table_record show ?thesis by blast
qed



text \<open>
  C6.  For every page index, every href that the scan returns contains \<open>ps4\<close> once it
  is put in lower case, and the scan returns the hrefs it keeps in document order: when
  the page is fetched, the result is the list of the hrefs of the title links, in the
  order of the document, filtered by the condition of the loop.
\<close>

theorem process_page_platform_token:
  "(\<forall>href \<in> set (process_page net page_number). \<exists>pre post. lower href = pre @ ''ps4'' @ post)
   \<and> (\<forall>r. fst (make_request_with_retry net (page_url page_number) MAX_RETRIES) = Inr (Some r) \<longrightarrow>
          process_page net page_number =
            filter (\<lambda>href. href \<noteq> [] \<and> contains ''/20'' href \<and> contains ''ps4'' (lower href))
              (List.map_filter (\<lambda>link. get_attr link ''href'')
                 (select_entry_title_a False (BeautifulSoup (content r))))
          \<and> subseq (select_entry_title_a False (BeautifulSoup (content r)))
               (descendants (BeautifulSoup (content r))))"
proof (intro conjI allI impI ballI)
  fix href assume "href \<in> set (process_page net page_number)"
  then have "contains ''ps4'' (lower href)" by (simp add: process_page_member)
  then show "\<exists>pre post. lower href = pre @ ''ps4'' @ post" by (simp add: contains_iff)
next
  fix r assume "fst (make_request_with_retry net (page_url page_number) MAX_RETRIES) = Inr (Some r)"
  then show "process_page net page_number =
      filter (\<lambda>href. href \<noteq> [] \<and> contains ''/20'' href \<and> contains ''ps4'' (lower href))
        (List.map_filter (\<lambda>link. get_attr link ''href'')
           (select_entry_title_a False (BeautifulSoup (content r))))"
    by (simp add: process_page_cases)
next
  fix r
  show "subseq (select_entry_title_a False (BeautifulSoup (content r)))
          (descendants (BeautifulSoup (content r)))"
    by (rule select_entry_title_a_document_order)
qed

theorem process_page_platform_token_witness:
  "''https://game-2u.com/2024/01/Game-PS4'' \<in> set (process_page listing_net 1)
   \<and> (\<exists>pre post. lower ''https://game-2u.com/2024/01/Game-PS4'' = pre @ ''ps4'' @ post)
   \<and> fst (make_request_with_retry listing_net (page_url 1) MAX_RETRIES)
       = Inr (Some \<lparr>status_code = 200, content = example_listing\<rparr>)
   \<and> process_page listing_net 1 =
       filter (\<lambda>href. href \<noteq> [] \<and> contains ''/20'' href \<and> contains ''ps4'' (lower href))
         (List.map_filter (\<lambda>link. get_attr link ''href'')
            (select_entry_title_a False (BeautifulSoup example_listing)))"
proof -
  note t = process_page_platform_token [of listing_net 1]
  have f: "fst (make_request_with_retry listing_net (page_url 1) MAX_RETRIES)
      = Inr (Some \<lparr>status_code = 200, content = example_listing\<rparr>)"
    by (rule listing_net_first_attempt)
  have m: "''https://game-2u.com/2024/01/Game-PS4'' \<in> set (process_page listing_net 1)"
    by (simp add: process_page_listing_net)
  from t m have a: "\<exists>pre post. lower ''https://game-2u.com/2024/01/Game-PS4'' = pre @ ''ps4'' @ post"
    by blast
  from t f have "process_page listing_net 1 =
       filter (\<lambda>href. href \<noteq> [] \<and> contains ''/20'' href \<and> contains ''ps4'' (lower href))
         (List.map_filter (\<lambda>link. get_attr link ''href'')
            (select_entry_title_a False
               (BeautifulSoup (content \<lparr>status_code = 200, content = example_listing\<rparr>))))"
    by blast
  then have b: "process_page listing_net 1 =
       filter (\<lambda>href. href \<noteq> [] \<and> contains ''/20'' href \<and> contains ''ps4'' (lower href))
         (List.map_filter (\<lambda>link. get_attr link ''href'')
            (select_entry_title_a False (BeautifulSoup example_listing)))"
    by simp
  from m a f b show ?thesis by (intro conjI)
qed



text \<open>
  C8.  The claim says that a row of exactly two cells whose first cell's text contains
  \<open>torrent\<close> contributes the first anchor of that cell to the Torrent category.  The
  source does so when that anchor has an \<open>href\<close>.  For a first anchor without \<open>href\<close>
  (a named anchor) \<open>a['href']\<close> raises \<open>KeyError\<close>: the row contributes nothing, the
  extraction stops, and the task returns \<open>False\<close> without writing the record of the
  item.  The branch for rows of four cells asks for anchors with \<open>href=True\<close>; this
  branch does not.
\<close>

theorem torrent_anchor_without_href_drops_item:
  "row_links
     (Tag ''tr'' []
        [Tag ''td'' []
           [NavigableString ''Torrent '', Tag ''a'' [(''name'', ''top'')] [NavigableString ''file'']],
         Tag ''td'' [] []])
     no_links = Inl (KeyError ''href'')
   \<and> extract_record ''u'' (BeautifulSoup torrent_anchor_without_href) = Inl (KeyError ''href'')
   \<and> parse_and_save_game torrent_without_href_net Map.empty ''u'' = (False, Map.empty)"
proof -
  have "parse_and_save_game torrent_without_href_net Map.empty ''u'' = (False, Map.empty)"
    using parse_and_save_game_fetched [OF torrent_without_href_net_fetch, of Map.empty]
    by (simp add: torrent_extract_raises)
  with torrent_row_raises torrent_extract_raises show ?thesis by simp
qed

text \<open>
  C9.  The record depends on the URL and the fetched document only.  Two runs of the
  extraction for the same URL that fetch the same document, whatever the attempts and
  the status of the two fetches and whatever files exist, agree on the outcome and
  write the same text to the same path; running the task again on its own result
  changes nothing.
\<close>

theorem parse_and_save_game_deterministic:
  assumes "fst (make_request_with_retry net1 url MAX_RETRIES) = Inr (Some r1)"
    and "fst (make_request_with_retry net2 url MAX_RETRIES) = Inr (Some r2)"
    and "content r1 = content r2"
  shows "fst (parse_and_save_game net1 fs1 url) = fst (parse_and_save_game net2 fs2 url)
     \<and> (fst (parse_and_save_game net1 fs1 url) \<longrightarrow>
          (\<exists>path rtext. snd (parse_and_save_game net1 fs1 url) = fs1(path \<mapsto> rtext)
                       \<and> snd (parse_and_save_game net2 fs2 url) = fs2(path \<mapsto> rtext)))
     \<and> (\<not> fst (parse_and_save_game net1 fs1 url) \<longrightarrow>
          snd (parse_and_save_game net1 fs1 url) = fs1 \<and> snd (parse_and_save_game net2 fs2 url) = fs2)
     \<and> parse_and_save_game net1 (snd (parse_and_save_game net1 fs1 url)) url
         = parse_and_save_game net1 fs1 url"
proof (cases "extract_record url (BeautifulSoup (content r1))")
  case (Inl e)
  with parse_and_save_game_fetched [OF assms(1)] parse_and_save_game_fetched [OF assms(2)] assms(3)
  show ?thesis by simp
next
  case (Inr res)
  obtain path rtext where "res = (path, rtext)" by (cases res)
  with Inr parse_and_save_game_fetched [OF assms(1)] parse_and_save_game_fetched [OF assms(2)]
    assms(3)
  show ?thesis by auto
qed

theorem parse_and_save_game_deterministic_witness:
  "fst (make_request_with_retry detail_net ''u'' MAX_RETRIES)
     = Inr (Some \<lparr>status_code = 200, content = example_detail\<rparr>)
   \<and> fst (make_request_with_retry flaky_detail_net ''u'' MAX_RETRIES)
       = Inr (Some \<lparr>status_code = 203, content = example_detail\<rparr>)
   \<and> fst (parse_and_save_game flaky_detail_net [''old.txt'' \<mapsto> ''old''] ''u'')
   \<and> (\<exists>path rtext.
         snd (parse_and_save_game detail_net Map.empty ''u'') = [path \<mapsto> rtext]
         \<and> snd (parse_and_save_game flaky_detail_net [''old.txt'' \<mapsto> ''old''] ''u'')
             = [''old.txt'' \<mapsto> ''old'', path \<mapsto> rtext])"
proof -
  have c: "content \<lparr>status_code = 200, content = example_detail\<rparr>
         = content \<lparr>status_code = 203, content = example_detail\<rparr>"
    by simp
  from parse_and_save_game_deterministic
         [OF detail_net_fetch flaky_detail_net_fetch c, of Map.empty "[''old.txt'' \<mapsto> ''old'']"]
    example_detail_written detail_net_fetch flaky_detail_net_fetch
  show ?thesis by simp
qed

text \<open>
  C10.  Filename sanitization is idempotent, \<open>sanitize (sanitize s) = sanitize s\<close> for
  every string \<open>s\<close>; its result holds none of the nine characters
  backslash, slash, star, question mark, colon, double quote, less-than, greater-than,
  bar; and its result neither starts nor ends with a whitespace character.
\<close>

theorem sanitize_filename_idempotent_clean:
  "sanitize_filename (sanitize_filename s) = sanitize_filename s
   \<and> set (sanitize_filename s) \<inter> set invalid_chars = {}
   \<and> (sanitize_filename s \<noteq> [] \<longrightarrow>
        \<not> isspace (hd (sanitize_filename s)) \<and> \<not> isspace (last (sanitize_filename s)))"
proof (intro conjI impI)
  have "sanitize_filename (sanitize_filename s) = strip (sanitize_filename s)"
    unfolding sanitize_filename_def [of "sanitize_filename s"]
    by (simp only: filter_strip_valid)
  also have "\<dots> = sanitize_filename s"
    unfolding sanitize_filename_def by (rule strip_strip)
  finally show "sanitize_filename (sanitize_filename s) = sanitize_filename s" .
next
  have "set (sanitize_filename s) \<subseteq> set (filter (\<lambda>c. c \<notin> set invalid_chars) s)"
    unfolding sanitize_filename_def by (rule set_strip)
  then show "set (sanitize_filename s) \<inter> set invalid_chars = {}" by auto
next
  assume "sanitize_filename s \<noteq> []"
  then show "\<not> isspace (hd (sanitize_filename s))"
    unfolding sanitize_filename_def by (rule strip_hd)
next
  assume "sanitize_filename s \<noteq> []"
  then show "\<not> isspace (last (sanitize_filename s))"
    unfolding sanitize_filename_def by (rule strip_last)
qed

theorem sanitize_filename_idempotent_clean_witness:
  "sanitize_filename '' GTA: V? '' = ''GTA V'' \<and> sanitize_filename ''GTA V'' = ''GTA V''
   \<and> \<not> isspace (hd ''GTA V'') \<and> \<not> isspace (last ''GTA V'')"
proof -
  have e: "sanitize_filename '' GTA: V? '' = ''GTA V''"
    by (simp add: sanitize_filename_def strip_def lstrip_def rstrip_def invalid_chars_def isspace_def)
  from sanitize_filename_idempotent_clean [of "'' GTA: V? ''"] show ?thesis
    unfolding e by simp
qed

end
